theory Spec2Isabelle
  imports Main "HOL-Library.Sublist"
begin

section \<open>Errors\<close>

text \<open>
  Both packages report failures as Go \<open>error\<close> values built with \<open>errors.New\<close> from
  a formatted message. The model keeps one constructor per message and the values that
  are formatted into it. The two messages that the specification files under
  \<open>InvalidArtifact\<close> (init.go lines 240 and 257) are told apart by an
  \<open>artifact_fault\<close>. \<open>GetwdError\<close> is the error of \<open>os.Getwd\<close> that
  \<open>filepath.Abs\<close> passes on (init.go line 245). \<open>RenderError\<close> is an error of
  \<open>template.Parse\<close> or \<open>template.Execute\<close> (generate_docker.go lines 122, 127).
\<close>

datatype artifact_fault = MustBeRelative | MustBeRegularFile

datatype render_fault = UnclosedAction | UnsupportedAction string | NoSuchField string

datatype error =
    PathNotFound string
  | InvalidArtifact artifact_fault string
  | GetwdError
  | ArtifactOutsideTree string string
  | ArtifactNotFound string
  | ArtifactConflict string string
  | UnsupportedProtocol string
  | UnsupportedLanguage string
  | RenderError string render_fault

section \<open>The Go library functions the program calls (Unix)\<close>

subsection \<open>strings\<close>

definition strings_HasPrefix :: "string \<Rightarrow> string \<Rightarrow> bool" where
  "strings_HasPrefix s pre = prefix pre s"

fun strings_Join :: "string list \<Rightarrow> string \<Rightarrow> string" where
  "strings_Join [] sep = []"
| "strings_Join [e] sep = e"
| "strings_Join (e # es) sep = e @ sep @ strings_Join es sep"

text \<open>
  \<open>strings.ToLower\<close> on the ASCII range: the bytes \<open>A\<close> .. \<open>Z\<close> move to
  \<open>a\<close> .. \<open>z\<close>, every other byte stays. (Go also maps upper-case letters outside
  ASCII; their UTF-8 bytes are left as they are here.)
\<close>

definition toLowerByte :: "char \<Rightarrow> char" where
  "toLowerByte c =
     (case map_of (zip ''ABCDEFGHIJKLMNOPQRSTUVWXYZ'' ''abcdefghijklmnopqrstuvwxyz'') c of
        None \<Rightarrow> c
      | Some l \<Rightarrow> l)"

definition strings_ToLower :: "string \<Rightarrow> string" where
  "strings_ToLower s = map toLowerByte s"

subsection \<open>path/filepath\<close>

definition Separator :: char where
  "Separator = CHR ''/''"

definition filepath_IsAbs :: "string \<Rightarrow> bool" where
  "filepath_IsAbs path = strings_HasPrefix path [Separator]"

text \<open>The path elements between separators; \<open>a//b\<close> has an empty element.\<close>

fun splitSep :: "string \<Rightarrow> string list" where
  "splitSep [] = [[]]"
| "splitSep (c # cs) =
     (if c = Separator then [] # splitSep cs
      else (case splitSep cs of e # es \<Rightarrow> (c # e) # es | [] \<Rightarrow> [[c]]))"

text \<open>
  The loop of \<open>filepath.Clean\<close>, element by element. \<open>out\<close> holds the elements
  written so far, the last one first. An empty element and \<open>.\<close> are skipped. At
  \<open>..\<close> the last written element is removed when there is one that is not itself
  \<open>..\<close> (Go: \<open>out.w > dotdot\<close>); otherwise \<open>..\<close> is written when the path is not
  rooted, and dropped when it is.
\<close>

fun cleanElems :: "bool \<Rightarrow> string list \<Rightarrow> string list \<Rightarrow> string list" where
  "cleanElems rooted out [] = out"
| "cleanElems rooted out (e # es) =
     (if e = [] then cleanElems rooted out es
      else if e = ''.'' then cleanElems rooted out es
      else if e = ''..'' then
        (case out of
           [] \<Rightarrow> if rooted then cleanElems rooted out es
                 else cleanElems rooted (''..'' # out) es
         | w # ws \<Rightarrow>
             if w = ''..'' then
               (if rooted then cleanElems rooted out es
                else cleanElems rooted (''..'' # out) es)
             else cleanElems rooted ws es)
      else cleanElems rooted (e # out) es)"

definition filepath_Clean :: "string \<Rightarrow> string" where
  "filepath_Clean path =
     (if path = [] then ''.''
      else
        (let rooted = filepath_IsAbs path;
             out = cleanElems rooted [] (splitSep path);
             buf = (if rooted then [Separator] else []) @ strings_Join (rev out) [Separator]
         in if buf = [] then ''.'' else buf))"

text \<open>\<open>filepath.Join\<close>: the elements from the first non-empty one on, joined and cleaned.\<close>

definition filepath_Join :: "string list \<Rightarrow> string" where
  "filepath_Join elem =
     (case dropWhile (\<lambda>e. e = []) elem of
        [] \<Rightarrow> []
      | e # es \<Rightarrow> filepath_Clean (strings_Join (e # es) [Separator]))"

text \<open>\<open>filepath.Dir\<close>: the path up to and with its last separator, cleaned.\<close>

definition filepath_Dir :: "string \<Rightarrow> string" where
  "filepath_Dir path = filepath_Clean (rev (dropWhile (\<lambda>c. c \<noteq> Separator) (rev path)))"

text \<open>
  \<open>filepath.Base\<close>: \<open>.\<close> for the empty path; otherwise the trailing separators are
  stripped and the last element is returned, \<open>/\<close> when nothing is left.
\<close>

definition filepath_Base :: "string \<Rightarrow> string" where
  "filepath_Base path =
     (if path = [] then ''.''
      else
        (let stripped = rev (dropWhile (\<lambda>c. c = Separator) (rev path));
             lastElem = rev (takeWhile (\<lambda>c. c \<noteq> Separator) (rev stripped))
         in if lastElem = [] then [Separator] else lastElem))"

subsection \<open>The operating system\<close>

text \<open>
  What the validator can observe of the machine it runs on: the result of
  \<open>os.Stat\<close> on a path (\<open>None\<close> when the call fails) and of \<open>os.Getwd\<close>
  (\<open>None\<close> when it fails).
\<close>

datatype FileMode = RegularFile | Directory

record OS =
  stat :: "string \<Rightarrow> FileMode option"
  getwd :: "string option"

definition filepath_Abs :: "OS \<Rightarrow> string \<Rightarrow> error + string" where
  "filepath_Abs os path =
     (if filepath_IsAbs path then Inr (filepath_Clean path)
      else (case getwd os of
              None \<Rightarrow> Inl GetwdError
            | Some wd \<Rightarrow> Inr (filepath_Join [wd, path])))"

text \<open>
  Modelled from the spec: \<open>osutils.FileExists\<close> of package \<open>pkg/osutils\<close>, whose
  source is not available. The specification uses it as "exists on the filesystem":
  the path can be stat'ed.
\<close>

definition osutils_FileExists :: "OS \<Rightarrow> string \<Rightarrow> bool" where
  "osutils_FileExists os path = (case stat os path of None \<Rightarrow> False | Some m \<Rightarrow> True)"

text \<open>
  Modelled from the spec: \<open>osutils.IsDirectory\<close> of package \<open>pkg/osutils\<close>, whose
  source is not available. The specification uses it as "is a directory": the path
  can be stat'ed and is a directory, so a path that does not exist is not a directory.
\<close>

definition osutils_IsDirectory :: "OS \<Rightarrow> string \<Rightarrow> bool" where
  "osutils_IsDirectory os path =
     (case stat os path of None \<Rightarrow> False | Some m \<Rightarrow> m = Directory)"

section \<open>Package generate: the Dockerfile generator (generate_docker.go)\<close>

subsection \<open>The templates (lines 29-55)\<close>

definition pythonFunctionDockerfileTemplate :: string where
  "pythonFunctionDockerfileTemplate =
     ''\<newline>FROM projectriff/python2-function-invoker:{{.RiffVersion}}'' @
     ''\<newline>ARG FUNCTION_MODULE={{.ArtifactBase}}'' @
     ''\<newline>ARG FUNCTION_HANDLER={{.Handler}}'' @
     ''\<newline>ADD ./{{.ArtifactBase}} /'' @
     ''\<newline>ADD ./requirements.txt /'' @
     ''\<newline>RUN  pip install --upgrade pip && pip install -r /requirements.txt'' @
     ''\<newline>ENV FUNCTION_URI file:///${FUNCTION_MODULE}?handler=${FUNCTION_HANDLER}'' @
     ''\<newline>''"

definition nodeFunctionDockerfileTemplate :: string where
  "nodeFunctionDockerfileTemplate =
     ''\<newline>FROM projectriff/node-function-invoker:{{.RiffVersion}}'' @
     ''\<newline>ENV FUNCTION_URI /functions/{{.Artifact}}'' @
     ''\<newline>ADD {{.ArtifactBase}} ${FUNCTION_URI}'' @
     ''\<newline>''"

definition javaFunctionDockerfileTemplate :: string where
  "javaFunctionDockerfileTemplate =
     ''\<newline>FROM projectriff/java-function-invoker:{{.RiffVersion}}'' @
     ''\<newline>ARG FUNCTION_JAR=/functions/{{.ArtifactBase}}'' @
     ''\<newline>ARG FUNCTION_CLASS={{.Handler}}'' @
     ''\<newline>ADD target/{{.ArtifactBase}} $FUNCTION_JAR'' @
     ''\<newline>ENV FUNCTION_URI file://${FUNCTION_JAR}?handler=${FUNCTION_CLASS}'' @
     ''\<newline>''"

definition shellFunctionDockerfileTemplate :: string where
  "shellFunctionDockerfileTemplate =
     ''\<newline>FROM projectriff/shell-function-invoker:{{.RiffVersion}}'' @
     ''\<newline>ARG FUNCTION_URI='' @ [CHR 0x22] @ ''/{{.ArtifactBase}}'' @ [CHR 0x22] @
     ''\<newline>ADD {{.Artifact}} /'' @
     ''\<newline>ENV FUNCTION_URI $FUNCTION_URI'' @
     ''\<newline>''"

subsection \<open>The options and the tokens (lines 57-62)\<close>

text \<open>
  Modelled from the spec: the types \<open>options.InitOptions\<close> and
  \<open>options.HandlerAwareInitOptions\<close> of package \<open>pkg/options\<close>, whose source is not
  available. The generator reads the fields \<open>Artifact\<close> and \<open>RiffVersion\<close> of the
  first and \<open>Handler\<close> of the second, which embeds the first. Every other field of
  the Go structs is in the records' extension.
\<close>

record options_InitOptions =
  Artifact :: string
  RiffVersion :: string

record options_HandlerAwareInitOptions = options_InitOptions +
  Handler :: string

text \<open>
  \<open>DockerFileTokens\<close>. Three of its field names are those of the options, so the
  record's fields carry the suffix \<open>_tok\<close>; the templates address them by their Go
  names, see \<open>evalField\<close>.
\<close>

record DockerFileTokens =
  Artifact_tok :: string
  ArtifactBase_tok :: string
  RiffVersion_tok :: string
  Handler_tok :: string

subsection \<open>text/template, for templates of text and field actions\<close>

text \<open>
  The templates of this package consist of text and of actions \<open>{{.Field}}\<close>. The
  model of \<open>Parse\<close> splits a template at the delimiters \<open>{{\<close> and \<open>}}\<close>; an
  action that is not closed is an error, and so is every action that is not one field
  of the dot (Go accepts more; no template of this package uses it).
\<close>

datatype item = ItemText string | ItemAction string

datatype node = TextNode string | FieldNode string

fun lexText :: "string \<Rightarrow> string \<Rightarrow> item list option"
  and lexInsideAction :: "string \<Rightarrow> string \<Rightarrow> item list option" where
  "lexText acc [] = Some [ItemText (rev acc)]"
| "lexText acc [c] = Some [ItemText (rev (c # acc))]"
| "lexText acc (c # d # cs) =
     (if c = CHR ''{'' \<and> d = CHR ''{''
      then map_option (\<lambda>items. ItemText (rev acc) # items) (lexInsideAction [] cs)
      else lexText (c # acc) (d # cs))"
| "lexInsideAction acc [] = None"
| "lexInsideAction acc [c] = None"
| "lexInsideAction acc (c # d # cs) =
     (if c = CHR ''}'' \<and> d = CHR ''}''
      then map_option (\<lambda>items. ItemAction (rev acc) # items) (lexText [] cs)
      else lexInsideAction (c # acc) (d # cs))"

definition isAlphaNumeric :: "char \<Rightarrow> bool" where
  "isAlphaNumeric c =
     (c \<in> set ''_abcdefghijklmnopqrstuvwxyzABCDEFGHIJKLMNOPQRSTUVWXYZ0123456789'')"

definition trimSpace :: "string \<Rightarrow> string" where
  "trimSpace s =
     rev (dropWhile (\<lambda>c. c = CHR '' '') (rev (dropWhile (\<lambda>c. c = CHR '' '') s)))"

definition parseAction :: "string \<Rightarrow> render_fault + node" where
  "parseAction a =
     (case trimSpace a of
        [] \<Rightarrow> Inl (UnsupportedAction a)
      | c # field \<Rightarrow>
          if c = CHR ''.'' \<and> field \<noteq> [] \<and> list_all isAlphaNumeric field
          then Inr (FieldNode field)
          else Inl (UnsupportedAction a))"

fun parseItems :: "item list \<Rightarrow> render_fault + node list" where
  "parseItems [] = Inr []"
| "parseItems (ItemText t # items) =
     (case parseItems items of Inl e \<Rightarrow> Inl e | Inr ns \<Rightarrow> Inr (TextNode t # ns))"
| "parseItems (ItemAction a # items) =
     (case parseAction a of
        Inl e \<Rightarrow> Inl e
      | Inr n \<Rightarrow> (case parseItems items of Inl e \<Rightarrow> Inl e | Inr ns \<Rightarrow> Inr (n # ns)))"

definition template_Parse :: "string \<Rightarrow> string \<Rightarrow> error + node list" where
  "template_Parse name tmpl =
     (case lexText [] tmpl of
        None \<Rightarrow> Inl (RenderError name UnclosedAction)
      | Some items \<Rightarrow>
          (case parseItems items of
             Inl e \<Rightarrow> Inl (RenderError name e)
           | Inr ns \<Rightarrow> Inr ns))"

text \<open>The value of a field of the dot, which is a \<open>DockerFileTokens\<close>.\<close>

definition evalField :: "DockerFileTokens \<Rightarrow> string \<Rightarrow> string option" where
  "evalField tokens field =
     (if field = ''Artifact'' then Some (Artifact_tok tokens)
      else if field = ''ArtifactBase'' then Some (ArtifactBase_tok tokens)
      else if field = ''RiffVersion'' then Some (RiffVersion_tok tokens)
      else if field = ''Handler'' then Some (Handler_tok tokens)
      else None)"

text \<open>
  \<open>Execute\<close> writes node after node to the buffer and stops at the first error. A
  string field is written as it is (text/template does not escape).
\<close>

fun template_Execute ::
  "string \<Rightarrow> node list \<Rightarrow> string \<Rightarrow> DockerFileTokens \<Rightarrow> error + string" where
  "template_Execute name [] buffer tokens = Inr buffer"
| "template_Execute name (TextNode t # ns) buffer tokens =
     template_Execute name ns (buffer @ t) tokens"
| "template_Execute name (FieldNode f # ns) buffer tokens =
     (case evalField tokens f of
        None \<Rightarrow> Inl (RenderError name (NoSuchField f))
      | Some v \<Rightarrow> template_Execute name ns (buffer @ v) tokens)"

subsection \<open>The generator (lines 64-130)\<close>

text \<open>A Go result \<open>(string, error)\<close> is a pair; \<open>None\<close> is the \<open>nil\<close> error.\<close>

definition generateFunctionDockerFileContents ::
  "string \<Rightarrow> string \<Rightarrow> DockerFileTokens \<Rightarrow> string \<times> error option" where
  "generateFunctionDockerFileContents tmpl name tokens =
     (case template_Parse name tmpl of
        Inl err \<Rightarrow> ([], Some err)
      | Inr t \<Rightarrow>
          (case template_Execute name t [] tokens of
             Inl err \<Rightarrow> ([], Some err)
           | Inr buffer \<Rightarrow> (buffer, None)))"

text \<open>
  The two generators without a handler leave \<open>Handler\<close> at the zero value of its
  type, the empty string.
\<close>

definition generateShellFunctionDockerFile ::
  "'a options_InitOptions_scheme \<Rightarrow> string \<times> error option" where
  "generateShellFunctionDockerFile opts =
     (let dockerFileTokens =
            \<lparr>Artifact_tok = Artifact opts,
             ArtifactBase_tok = filepath_Base (Artifact opts),
             RiffVersion_tok = RiffVersion opts,
             Handler_tok = []\<rparr>
      in generateFunctionDockerFileContents shellFunctionDockerfileTemplate
           ''docker-shell'' dockerFileTokens)"

definition generateNodeFunctionDockerFile ::
  "'a options_InitOptions_scheme \<Rightarrow> string \<times> error option" where
  "generateNodeFunctionDockerFile opts =
     (let dockerFileTokens =
            \<lparr>Artifact_tok = Artifact opts,
             ArtifactBase_tok = filepath_Base (Artifact opts),
             RiffVersion_tok = RiffVersion opts,
             Handler_tok = []\<rparr>
      in generateFunctionDockerFileContents nodeFunctionDockerfileTemplate
           ''docker-node'' dockerFileTokens)"

definition generateJavaFunctionDockerFile ::
  "'a options_HandlerAwareInitOptions_scheme \<Rightarrow> string \<times> error option" where
  "generateJavaFunctionDockerFile opts =
     (let dockerFileTokens =
            \<lparr>Artifact_tok = Artifact opts,
             ArtifactBase_tok = filepath_Base (Artifact opts),
             RiffVersion_tok = RiffVersion opts,
             Handler_tok = Handler opts\<rparr>
      in generateFunctionDockerFileContents javaFunctionDockerfileTemplate
           ''docker-java'' dockerFileTokens)"

definition generatePythonFunctionDockerFile ::
  "'a options_HandlerAwareInitOptions_scheme \<Rightarrow> string \<times> error option" where
  "generatePythonFunctionDockerFile opts =
     (let dockerFileTokens =
            \<lparr>Artifact_tok = Artifact opts,
             ArtifactBase_tok = filepath_Base (Artifact opts),
             RiffVersion_tok = RiffVersion opts,
             Handler_tok = Handler opts\<rparr>
      in generateFunctionDockerFileContents pythonFunctionDockerfileTemplate
           ''docker-python'' dockerFileTokens)"

text \<open>
  \<open>opts.InitOptions\<close>, the embedded struct handed to the shell and node generators, is
  the record without its \<open>Handler\<close> extension.
\<close>

definition generateDockerfile ::
  "string \<Rightarrow> 'a options_HandlerAwareInitOptions_scheme \<Rightarrow> string \<times> error option" where
  "generateDockerfile language opts =
     (if language = ''java'' then generateJavaFunctionDockerFile opts
      else if language = ''python'' then generatePythonFunctionDockerFile opts
      else if language = ''shell''
        then generateShellFunctionDockerFile (options_InitOptions.truncate opts)
      else if language = ''node''
        then generateNodeFunctionDockerFile (options_InitOptions.truncate opts)
      else if language = ''js''
        then generateNodeFunctionDockerFile (options_InitOptions.truncate opts)
      else ([], Some (UnsupportedLanguage language)))"

section \<open>Package cmd: the option validator (init.go)\<close>

text \<open>
  Modelled from the spec: the type \<open>InitOptions\<close> of package \<open>cmd\<close>, declared in a
  file whose source is not available. The validator reads and writes its fields
  \<open>functionPath\<close>, \<open>artifact\<close> and \<open>protocol\<close>, all strings. Every other field of
  the Go struct is in the record's extension.
\<close>

record InitOptions =
  functionPath :: string
  artifact :: string
  protocol :: string

text \<open>
  \<open>validateAndCleanInitOptions\<close> takes a pointer and writes through it, so the model
  returns the record as the caller finds it after the call, next to the error
  (\<open>None\<close> is \<open>nil\<close>). The package variable \<open>supportedProtocols\<close> is declared in a
  file whose source is not available; it is a parameter.

  The function is one sequence of three blocks, each a definition here.
\<close>

text \<open>Lines 226-229: both paths are cleaned, the artifact only when it is given.\<close>

definition cleanPaths :: "'a InitOptions_scheme \<Rightarrow> 'a InitOptions_scheme" where
  "cleanPaths options =
     (let options = options\<lparr>functionPath := filepath_Clean (functionPath options)\<rparr>
      in if artifact options \<noteq> []
         then options\<lparr>artifact := filepath_Clean (artifact options)\<rparr>
         else options)"

text \<open>Lines 231-235: the function path must exist.\<close>

definition checkFunctionPath :: "OS \<Rightarrow> 'a InitOptions_scheme \<Rightarrow> error option" where
  "checkFunctionPath os options =
     (if functionPath options \<noteq> [] then
        (if \<not> osutils_FileExists os (functionPath options)
         then Some (PathNotFound (functionPath options))
         else None)
      else None)"

text \<open>Lines 237-276: the checks of a given artifact, in the order of the source.\<close>

definition checkArtifact :: "OS \<Rightarrow> 'a InitOptions_scheme \<Rightarrow> error option" where
  "checkArtifact os options =
     (if artifact options \<noteq> [] then
        (if filepath_IsAbs (artifact options)
         then Some (InvalidArtifact MustBeRelative (artifact options))
         else
           (case filepath_Abs os (functionPath options) of
              Inl err \<Rightarrow> Some err
            | Inr absFilePath \<Rightarrow>
                (let absArtifactPath =
                       (if osutils_IsDirectory os absFilePath
                        then filepath_Join [absFilePath, artifact options]
                        else filepath_Join [filepath_Dir absFilePath, artifact options])
                 in if osutils_IsDirectory os absArtifactPath
                    then Some (InvalidArtifact MustBeRegularFile absArtifactPath)
                    else
                      (let absFilePathDir =
                             (if \<not> osutils_IsDirectory os absFilePath
                              then filepath_Dir absFilePath
                              else absFilePath)
                       in if \<not> strings_HasPrefix (filepath_Dir absArtifactPath) absFilePathDir
                          then Some (ArtifactOutsideTree absArtifactPath absFilePath)
                          else if \<not> osutils_FileExists os absArtifactPath
                          then Some (ArtifactNotFound absArtifactPath)
                          else if \<not> osutils_IsDirectory os absFilePath
                                  \<and> absFilePath \<noteq> absArtifactPath
                          then Some (ArtifactConflict absArtifactPath absFilePath)
                          else None))))
      else None)"

text \<open>
  Lines 278-290: a given protocol is lower-cased in the record, then looked for in
  \<open>supportedProtocols\<close>. The loop runs over the whole list and sets the flag at
  every match.
\<close>

fun protocolLoop :: "string \<Rightarrow> bool \<Rightarrow> string list \<Rightarrow> bool" where
  "protocolLoop proto supported [] = supported"
| "protocolLoop proto supported (p # ps) =
     (if proto = p then protocolLoop proto True ps else protocolLoop proto supported ps)"

definition checkProtocol ::
  "string list \<Rightarrow> 'a InitOptions_scheme \<Rightarrow> 'a InitOptions_scheme \<times> error option" where
  "checkProtocol supportedProtocols options =
     (if protocol options \<noteq> [] then
        (let options = options\<lparr>protocol := strings_ToLower (protocol options)\<rparr>;
             supported = protocolLoop (protocol options) False supportedProtocols
         in if \<not> supported
            then (options, Some (UnsupportedProtocol (protocol options)))
            else (options, None))
      else (options, None))"

definition validateAndCleanInitOptions ::
  "OS \<Rightarrow> string list \<Rightarrow> 'a InitOptions_scheme \<Rightarrow> 'a InitOptions_scheme \<times> error option" where
  "validateAndCleanInitOptions os supportedProtocols options =
     (let options = cleanPaths options
      in case checkFunctionPath os options of
           Some err \<Rightarrow> (options, Some err)
         | None \<Rightarrow>
             (case checkArtifact os options of
                Some err \<Rightarrow> (options, Some err)
              | None \<Rightarrow> checkProtocol supportedProtocols options))"

section \<open>Notions used to state the properties\<close>

subsection \<open>Containment and example file systems\<close>



text \<open>File systems for the examples: a table of the paths that exist.\<close>

definition tableOS :: "(string \<times> FileMode) list \<Rightarrow> OS" where
  "tableOS entries = \<lparr>stat = map_of entries, getwd = Some ''/''\<rparr>"

definition siblingFiles :: "(string \<times> FileMode) list" where
  "siblingFiles =
     [(''/'', Directory), (''/a'', Directory), (''/a/b'', Directory),
      (''/a/bFoo'', Directory), (''/a/bFoo/x.jar'', RegularFile)]"

definition projectFiles :: "(string \<times> FileMode) list" where
  "projectFiles =
     [(''/'', Directory), (''/a'', Directory), (''/a/b'', Directory),
      (''/a/g.js'', RegularFile), (''/a/b/f.js'', RegularFile),
      (''/a/b/h.js'', RegularFile)]"

subsection \<open>Rendering without error\<close>

text \<open>
  Neither error branch of \<open>generateFunctionDockerFileContents\<close> (lines 121-123 and
  126-128) is taken for this template, name and tokens.
\<close>

definition rendersWithoutError :: "string \<Rightarrow> string \<Rightarrow> DockerFileTokens \<Rightarrow> bool" where
  "rendersWithoutError tmpl name tokens =
     (case template_Parse name tmpl of
        Inl err \<Rightarrow> False
      | Inr t \<Rightarrow>
          (case template_Execute name t [] tokens of
             Inl err \<Rightarrow> False
           | Inr buffer \<Rightarrow> True))"

section \<open>Facts about the library functions\<close>

lemmas path_defs =
  filepath_Clean_def filepath_Join_def filepath_Dir_def filepath_Base_def filepath_IsAbs_def
  filepath_Abs_def strings_HasPrefix_def Separator_def

lemmas os_defs = osutils_FileExists_def osutils_IsDirectory_def tableOS_def

lemmas validate_defs =
  validateAndCleanInitOptions_def cleanPaths_def checkFunctionPath_def checkArtifact_def
  checkProtocol_def

lemmas parse_defs = template_Parse_def parseAction_def trimSpace_def isAlphaNumeric_def

text \<open>\<open>filepath.Clean\<close> never returns the empty string: it returns \<open>.\<close> instead.\<close>

lemma filepath_Clean_nonempty: "filepath_Clean path \<noteq> []"
  by (simp add: filepath_Clean_def Let_def)

lemma not_abs_Clean_empty: "\<not> filepath_IsAbs (filepath_Clean [])"
  by (simp add: path_defs)



section \<open>The four templates parse\<close>

lemma parse_java:
  "template_Parse name javaFunctionDockerfileTemplate =
     Inr [TextNode ''\<newline>FROM projectriff/java-function-invoker:'',
          FieldNode ''RiffVersion'',
          TextNode ''\<newline>ARG FUNCTION_JAR=/functions/'',
          FieldNode ''ArtifactBase'',
          TextNode ''\<newline>ARG FUNCTION_CLASS='',
          FieldNode ''Handler'',
          TextNode ''\<newline>ADD target/'',
          FieldNode ''ArtifactBase'',
          TextNode ('' $FUNCTION_JAR'' @
            ''\<newline>ENV FUNCTION_URI file://${FUNCTION_JAR}?handler=${FUNCTION_CLASS}'' @
            ''\<newline>'')]"
  by (simp add: parse_defs javaFunctionDockerfileTemplate_def)

lemma parse_python:
  "template_Parse name pythonFunctionDockerfileTemplate =
     Inr [TextNode ''\<newline>FROM projectriff/python2-function-invoker:'',
          FieldNode ''RiffVersion'',
          TextNode ''\<newline>ARG FUNCTION_MODULE='',
          FieldNode ''ArtifactBase'',
          TextNode ''\<newline>ARG FUNCTION_HANDLER='',
          FieldNode ''Handler'',
          TextNode ''\<newline>ADD ./'',
          FieldNode ''ArtifactBase'',
          TextNode ('' /'' @
            ''\<newline>ADD ./requirements.txt /'' @
            ''\<newline>RUN  pip install --upgrade pip && pip install -r /requirements.txt'' @
            ''\<newline>ENV FUNCTION_URI file:///${FUNCTION_MODULE}?handler=${FUNCTION_HANDLER}'' @
            ''\<newline>'')]"
  by (simp add: parse_defs pythonFunctionDockerfileTemplate_def)

lemma parse_node:
  "template_Parse name nodeFunctionDockerfileTemplate =
     Inr [TextNode ''\<newline>FROM projectriff/node-function-invoker:'',
          FieldNode ''RiffVersion'',
          TextNode ''\<newline>ENV FUNCTION_URI /functions/'',
          FieldNode ''Artifact'',
          TextNode ''\<newline>ADD '',
          FieldNode ''ArtifactBase'',
          TextNode ('' ${FUNCTION_URI}'' @ ''\<newline>'')]"
  by (simp add: parse_defs nodeFunctionDockerfileTemplate_def)

lemma parse_shell:
  "template_Parse name shellFunctionDockerfileTemplate =
     Inr [TextNode ''\<newline>FROM projectriff/shell-function-invoker:'',
          FieldNode ''RiffVersion'',
          TextNode (''\<newline>ARG FUNCTION_URI='' @ [CHR 0x22] @ ''/''),
          FieldNode ''ArtifactBase'',
          TextNode ([CHR 0x22] @ ''\<newline>ADD ''),
          FieldNode ''Artifact'',
          TextNode ('' /'' @ ''\<newline>ENV FUNCTION_URI $FUNCTION_URI'' @ ''\<newline>'')]"
  by (simp add: parse_defs shellFunctionDockerfileTemplate_def)

section \<open>The text of each generator\<close>

lemma java_text:
  "generateJavaFunctionDockerFile opts =
     (''\<newline>FROM projectriff/java-function-invoker:'' @ RiffVersion opts @
      ''\<newline>ARG FUNCTION_JAR=/functions/'' @ filepath_Base (Artifact opts) @
      ''\<newline>ARG FUNCTION_CLASS='' @ Handler opts @
      ''\<newline>ADD target/'' @ filepath_Base (Artifact opts) @ '' $FUNCTION_JAR'' @
      ''\<newline>ENV FUNCTION_URI file://${FUNCTION_JAR}?handler=${FUNCTION_CLASS}'' @
      ''\<newline>'', None)"
  by (simp add: generateJavaFunctionDockerFile_def generateFunctionDockerFileContents_def
      parse_java evalField_def)

lemma python_text:
  "generatePythonFunctionDockerFile opts =
     (''\<newline>FROM projectriff/python2-function-invoker:'' @ RiffVersion opts @
      ''\<newline>ARG FUNCTION_MODULE='' @ filepath_Base (Artifact opts) @
      ''\<newline>ARG FUNCTION_HANDLER='' @ Handler opts @
      ''\<newline>ADD ./'' @ filepath_Base (Artifact opts) @ '' /'' @
      ''\<newline>ADD ./requirements.txt /'' @
      ''\<newline>RUN  pip install --upgrade pip && pip install -r /requirements.txt'' @
      ''\<newline>ENV FUNCTION_URI file:///${FUNCTION_MODULE}?handler=${FUNCTION_HANDLER}'' @
      ''\<newline>'', None)"
  by (simp add: generatePythonFunctionDockerFile_def generateFunctionDockerFileContents_def
      parse_python evalField_def)

lemma node_text:
  "generateNodeFunctionDockerFile opts =
     (''\<newline>FROM projectriff/node-function-invoker:'' @ RiffVersion opts @
      ''\<newline>ENV FUNCTION_URI /functions/'' @ Artifact opts @
      ''\<newline>ADD '' @ filepath_Base (Artifact opts) @ '' ${FUNCTION_URI}'' @
      ''\<newline>'', None)"
  by (simp add: generateNodeFunctionDockerFile_def generateFunctionDockerFileContents_def
      parse_node evalField_def)

lemma shell_text:
  "generateShellFunctionDockerFile opts =
     (''\<newline>FROM projectriff/shell-function-invoker:'' @ RiffVersion opts @
      ''\<newline>ARG FUNCTION_URI='' @ [CHR 0x22] @ ''/'' @ filepath_Base (Artifact opts) @
      [CHR 0x22] @
      ''\<newline>ADD '' @ Artifact opts @ '' /'' @
      ''\<newline>ENV FUNCTION_URI $FUNCTION_URI'' @
      ''\<newline>'', None)"
  by (simp add: generateShellFunctionDockerFile_def generateFunctionDockerFileContents_def
      parse_shell evalField_def)

lemma supported_no_error:
  "snd (generateJavaFunctionDockerFile opts) = None"
  "snd (generatePythonFunctionDockerFile opts) = None"
  "snd (generateNodeFunctionDockerFile iopts) = None"
  "snd (generateShellFunctionDockerFile iopts) = None"
  by (simp_all add: java_text python_text node_text shell_text)

lemma generateDockerfile_java:
  "generateDockerfile ''java'' opts = generateJavaFunctionDockerFile opts"
  by (simp add: generateDockerfile_def)

lemma truncate_fields:
  "Artifact (options_InitOptions.truncate opts) = Artifact opts"
  "RiffVersion (options_InitOptions.truncate opts) = RiffVersion opts"
  by (simp_all add: options_InitOptions.truncate_def)

text \<open>The generator reads three fields of its parameter and nothing else.\<close>

lemma reads_three_fields:
  "generateDockerfile language opts =
     generateDockerfile language
       \<lparr>Artifact = Artifact opts, RiffVersion = RiffVersion opts, Handler = Handler opts\<rparr>"
  by (simp add: generateDockerfile_def java_text python_text node_text shell_text
      truncate_fields)

section \<open>The validator\<close>



text \<open>
  C2. With an empty artifact and an empty protocol, validation returns no error when
  the cleaned function path exists and \<open>PathNotFound\<close> of the cleaned function path
  when it does not; so no other error is returned.
\<close>

theorem empty_artifact_protocol:
  assumes "artifact options = []" and "protocol options = []"
  shows "snd (validateAndCleanInitOptions os supportedProtocols options) =
           (if osutils_FileExists os (filepath_Clean (functionPath options)) then None
            else Some (PathNotFound (filepath_Clean (functionPath options))))"
  using assms
  by (simp add: validate_defs Let_def filepath_Clean_nonempty)

text \<open>An existing directory, given with a trailing separator, passes.\<close>

theorem empty_artifact_protocol_witness:
  "artifact \<lparr>functionPath = ''/a/b/'', artifact = [], protocol = []\<rparr> = []
   \<and> protocol \<lparr>functionPath = ''/a/b/'', artifact = [], protocol = []\<rparr> = []
   \<and> osutils_FileExists (tableOS siblingFiles) (filepath_Clean ''/a/b/'')
   \<and> snd (validateAndCleanInitOptions (tableOS siblingFiles) [''http'']
          \<lparr>functionPath = ''/a/b/'', artifact = [], protocol = []\<rparr>) = None"
proof -
  have ex: "osutils_FileExists (tableOS siblingFiles) (filepath_Clean ''/a/b/'')"
    by (simp add: path_defs os_defs siblingFiles_def)
  show ?thesis
    using ex
      empty_artifact_protocol [of "\<lparr>functionPath = ''/a/b/'', artifact = [], protocol = []\<rparr>"
        "tableOS siblingFiles" "[''http'']"]
    by simp
qed

text \<open>
  C3, amended. When the cleaned function path exists and the cleaned artifact is an
  absolute path, validation fails with \<open>InvalidArtifact\<close> (must be relative), for
  every file system: no lookup of the artifact has a part in the result. The record is
  left with its paths cleaned and its protocol as given.
\<close>

theorem absolute_artifact:
  assumes "filepath_IsAbs (filepath_Clean (artifact options))"
    and "osutils_FileExists os (filepath_Clean (functionPath options))"
  shows "validateAndCleanInitOptions os supportedProtocols options =
           (cleanPaths options,
            Some (InvalidArtifact MustBeRelative (filepath_Clean (artifact options))))"
proof -
  from assms(1) have given: "artifact options \<noteq> []"
    using not_abs_Clean_empty by auto
  with assms show ?thesis
    by (simp add: validate_defs Let_def filepath_Clean_nonempty)
qed

text \<open>An absolute artifact that does not exist, under an existing function path.\<close>

theorem absolute_artifact_witness:
  "filepath_IsAbs (filepath_Clean ''/x.jar'')
   \<and> osutils_FileExists (tableOS siblingFiles) (filepath_Clean ''/a/b/'')
   \<and> validateAndCleanInitOptions (tableOS siblingFiles) [''http'']
        \<lparr>functionPath = ''/a/b/'', artifact = ''/x.jar'', protocol = ''HTTP''\<rparr>
       = (\<lparr>functionPath = ''/a/b'', artifact = ''/x.jar'', protocol = ''HTTP''\<rparr>,
          Some (InvalidArtifact MustBeRelative ''/x.jar''))"
proof -
  have abs: "filepath_IsAbs (filepath_Clean
      (artifact \<lparr>functionPath = ''/a/b/'', artifact = ''/x.jar'', protocol = ''HTTP''\<rparr>))"
    by (simp add: path_defs)
  have ex: "osutils_FileExists (tableOS siblingFiles) (filepath_Clean
      (functionPath \<lparr>functionPath = ''/a/b/'', artifact = ''/x.jar'', protocol = ''HTTP''\<rparr>))"
    by (simp add: path_defs os_defs siblingFiles_def)
  show ?thesis
    using abs ex absolute_artifact [OF abs ex, of "[''http'']"]
    by (simp add: cleanPaths_def path_defs)
qed

text \<open>
  Without the premise on the function path the statement fails: the function path is
  looked up first, and when it does not exist the error is \<open>PathNotFound\<close>, also for
  an absolute artifact.
\<close>

theorem absolute_artifact_counterexample:
  "filepath_IsAbs (filepath_Clean ''/x.jar'')
   \<and> snd (validateAndCleanInitOptions (tableOS siblingFiles) [''http'']
          \<lparr>functionPath = ''/nowhere'', artifact = ''/x.jar'', protocol = []\<rparr>)
       = Some (PathNotFound ''/nowhere'')
   \<and> snd (validateAndCleanInitOptions (tableOS siblingFiles) [''http'']
          \<lparr>functionPath = ''/nowhere'', artifact = ''/x.jar'', protocol = []\<rparr>)
       \<noteq> Some (InvalidArtifact MustBeRelative (filepath_Clean ''/x.jar''))"
  by (simp add: validate_defs path_defs os_defs siblingFiles_def Let_def)

text \<open>
  C4, amended. Let the function path be a regular file and let the non-empty relative
  artifact, joined to the directory of the function path's absolute path, be an
  existing regular file whose directory has the directory of the function path as a
  string prefix (so that the containment check passes). When the two absolute paths
  differ, validation fails with \<open>ArtifactConflict\<close>; when they are equal, every
  check of the artifact passes and the result is that of the protocol check.
\<close>

theorem file_mode_conflict:
  assumes "stat os (filepath_Clean (functionPath options)) = Some RegularFile"
    and "filepath_Abs os (filepath_Clean (functionPath options)) = Inr absFilePath"
    and "stat os absFilePath = Some RegularFile"
    and "artifact options \<noteq> []"
    and "\<not> filepath_IsAbs (filepath_Clean (artifact options))"
    and "absArtifactPath =
           filepath_Join [filepath_Dir absFilePath, filepath_Clean (artifact options)]"
    and "stat os absArtifactPath = Some RegularFile"
    and "strings_HasPrefix (filepath_Dir absArtifactPath) (filepath_Dir absFilePath)"
  shows "validateAndCleanInitOptions os supportedProtocols options =
           (if absFilePath \<noteq> absArtifactPath
            then (cleanPaths options, Some (ArtifactConflict absArtifactPath absFilePath))
            else checkProtocol supportedProtocols (cleanPaths options))"
  using assms
  by (simp add: validateAndCleanInitOptions_def cleanPaths_def checkFunctionPath_def
      checkArtifact_def osutils_FileExists_def osutils_IsDirectory_def Let_def
      filepath_Clean_nonempty)

text \<open>The file \<open>/a/b/f.js\<close> with the artifact \<open>h.js\<close>, its neighbour.\<close>

theorem file_mode_conflict_witness:
  "stat (tableOS projectFiles) (filepath_Clean ''/a/b/f.js'') = Some RegularFile
   \<and> filepath_Abs (tableOS projectFiles) (filepath_Clean ''/a/b/f.js'') = Inr ''/a/b/f.js''
   \<and> \<not> filepath_IsAbs (filepath_Clean ''h.js'')
   \<and> ''/a/b/h.js'' = filepath_Join [filepath_Dir ''/a/b/f.js'', filepath_Clean ''h.js'']
   \<and> stat (tableOS projectFiles) ''/a/b/h.js'' = Some RegularFile
   \<and> strings_HasPrefix (filepath_Dir ''/a/b/h.js'') (filepath_Dir ''/a/b/f.js'')
   \<and> validateAndCleanInitOptions (tableOS projectFiles) [''http'']
        \<lparr>functionPath = ''/a/b/f.js'', artifact = ''h.js'', protocol = []\<rparr>
       = (\<lparr>functionPath = ''/a/b/f.js'', artifact = ''h.js'', protocol = []\<rparr>,
          Some (ArtifactConflict ''/a/b/h.js'' ''/a/b/f.js''))"
proof -
  let ?options = "\<lparr>functionPath = ''/a/b/f.js'', artifact = ''h.js'', protocol = []\<rparr>"
  have h1: "stat (tableOS projectFiles) (filepath_Clean (functionPath ?options))
              = Some RegularFile"
    by (simp add: path_defs os_defs projectFiles_def)
  have h2: "filepath_Abs (tableOS projectFiles) (filepath_Clean (functionPath ?options))
              = Inr ''/a/b/f.js''"
    by (simp add: path_defs)
  have h3: "stat (tableOS projectFiles) ''/a/b/f.js'' = Some RegularFile"
    by (simp add: os_defs projectFiles_def)
  have h4: "artifact ?options \<noteq> []"
    by simp
  have h5: "\<not> filepath_IsAbs (filepath_Clean (artifact ?options))"
    by (simp add: path_defs)
  have h6: "''/a/b/h.js'' =
              filepath_Join [filepath_Dir ''/a/b/f.js'', filepath_Clean (artifact ?options)]"
    by (simp add: path_defs)
  have h7: "stat (tableOS projectFiles) ''/a/b/h.js'' = Some RegularFile"
    by (simp add: os_defs projectFiles_def)
  have h8: "strings_HasPrefix (filepath_Dir ''/a/b/h.js'') (filepath_Dir ''/a/b/f.js'')"
    by (simp add: path_defs)
  have clean: "cleanPaths ?options = ?options"
    by (simp add: cleanPaths_def path_defs)
  have run: "validateAndCleanInitOptions (tableOS projectFiles) [''http''] ?options =
               (?options, Some (ArtifactConflict ''/a/b/h.js'' ''/a/b/f.js''))"
    using file_mode_conflict [OF h1 h2 h3 h4 h5 h6 h7 h8, of "[''http'']"]
    by (simp add: clean)
  show ?thesis
    using run by (simp add: path_defs os_defs projectFiles_def)
qed

text \<open>
  Without the premise on the directory of the artifact the statement fails: the
  artifact \<open>../g.js\<close> resolves to the existing regular file \<open>/a/g.js\<close>, which is not
  the function path \<open>/a/b/f.js\<close>, and the error is \<open>ArtifactOutsideTree\<close>, from the
  containment check that precedes the comparison.
\<close>

theorem file_mode_conflict_counterexample:
  "stat (tableOS projectFiles) (filepath_Clean ''/a/b/f.js'') = Some RegularFile
   \<and> filepath_Abs (tableOS projectFiles) (filepath_Clean ''/a/b/f.js'') = Inr ''/a/b/f.js''
   \<and> filepath_Join [filepath_Dir ''/a/b/f.js'', filepath_Clean ''../g.js''] = ''/a/g.js''
   \<and> stat (tableOS projectFiles) ''/a/g.js'' = Some RegularFile
   \<and> snd (validateAndCleanInitOptions (tableOS projectFiles) [''http'']
          \<lparr>functionPath = ''/a/b/f.js'', artifact = ''../g.js'', protocol = []\<rparr>)
       = Some (ArtifactOutsideTree ''/a/g.js'' ''/a/b/f.js'')"
  by (simp add: validate_defs path_defs os_defs projectFiles_def Let_def)




section \<open>The generator\<close>

text \<open>
  C6. For a language that is none of \<open>java\<close>, \<open>python\<close>, \<open>shell\<close>, \<open>node\<close>,
  \<open>js\<close>, and for every options record, \<open>generateDockerfile\<close> returns the empty
  string together with the error \<open>UnsupportedLanguage\<close>.
\<close>

theorem unsupported_language:
  assumes "language \<notin> {''java'', ''python'', ''shell'', ''node'', ''js''}"
  shows "generateDockerfile language opts = ([], Some (UnsupportedLanguage language))"
  using assms by (simp add: generateDockerfile_def)

theorem unsupported_language_witness:
  "''ruby'' \<notin> {''java'', ''python'', ''shell'', ''node'', ''js''}
   \<and> generateDockerfile ''ruby''
        \<lparr>Artifact = ''fn.rb'', RiffVersion = ''0.1'', Handler = ''Fn''\<rparr>
       = ([], Some (UnsupportedLanguage ''ruby''))"
proof -
  have h: "''ruby'' \<notin> {''java'', ''python'', ''shell'', ''node'', ''js''}"
    by simp
  show ?thesis
    using h unsupported_language [OF h] by simp
qed

text \<open>
  C7. For every options record, the languages \<open>js\<close> and \<open>node\<close> give the same text
  and the same error.
\<close>

theorem js_is_node:
  "generateDockerfile ''js'' opts = generateDockerfile ''node'' opts"
  by (simp add: generateDockerfile_def)

text \<open>
  C8. For the artifact \<open>target/app.jar\<close>, the version \<open>0.1\<close> and the handler
  \<open>com.example.Fn\<close> the java generator returns no error and a text that contains
  \<open>FUNCTION_CLASS=com.example.Fn\<close> and \<open>projectriff/java-function-invoker:0.1\<close>.
  For every options record the java text is the java template with \<open>RiffVersion\<close>
  and \<open>Handler\<close> of the options and with the base name of \<open>Artifact\<close> in the place
  of \<open>ArtifactBase\<close>.
\<close>

theorem java_dockerfile:
  "snd (generateDockerfile ''java''
      \<lparr>Artifact = ''target/app.jar'', RiffVersion = ''0.1'', Handler = ''com.example.Fn''\<rparr>)
     = None
   \<and> sublist ''FUNCTION_CLASS=com.example.Fn''
       (fst (generateDockerfile ''java''
          \<lparr>Artifact = ''target/app.jar'', RiffVersion = ''0.1'',
           Handler = ''com.example.Fn''\<rparr>))
   \<and> sublist ''projectriff/java-function-invoker:0.1''
       (fst (generateDockerfile ''java''
          \<lparr>Artifact = ''target/app.jar'', RiffVersion = ''0.1'',
           Handler = ''com.example.Fn''\<rparr>))
   \<and> generateDockerfile ''java'' opts =
       (''\<newline>FROM projectriff/java-function-invoker:'' @ RiffVersion opts @
        ''\<newline>ARG FUNCTION_JAR=/functions/'' @ filepath_Base (Artifact opts) @
        ''\<newline>ARG FUNCTION_CLASS='' @ Handler opts @
        ''\<newline>ADD target/'' @ filepath_Base (Artifact opts) @ '' $FUNCTION_JAR'' @
        ''\<newline>ENV FUNCTION_URI file://${FUNCTION_JAR}?handler=${FUNCTION_CLASS}'' @
        ''\<newline>'', None)"
proof -
  let ?opts = "\<lparr>Artifact = ''target/app.jar'', RiffVersion = ''0.1'',
                 Handler = ''com.example.Fn''\<rparr>"
  have base: "filepath_Base ''target/app.jar'' = ''app.jar''"
    by (simp add: filepath_Base_def Separator_def)
  have c1: "sublist ''FUNCTION_CLASS=com.example.Fn'' (fst (generateDockerfile ''java'' ?opts))"
    by (simp add: generateDockerfile_java java_text base sublist_Cons_right)
  have c2: "sublist ''projectriff/java-function-invoker:0.1''
              (fst (generateDockerfile ''java'' ?opts))"
    by (simp add: generateDockerfile_java java_text base sublist_Cons_right)
  show ?thesis
    using c1 c2 by (simp add: generateDockerfile_java java_text)
qed

text \<open>
  C10. Each of the four templates parses and executes without error, under every
  name and for all tokens: neither error branch of
  \<open>generateFunctionDockerFileContents\<close> is taken for them. So \<open>generateDockerfile\<close>
  returns no error exactly for the languages \<open>java\<close>, \<open>python\<close>, \<open>shell\<close>,
  \<open>node\<close> and \<open>js\<close>, for every options record.
\<close>

theorem no_render_error:
  "rendersWithoutError javaFunctionDockerfileTemplate name tokens
   \<and> rendersWithoutError pythonFunctionDockerfileTemplate name tokens
   \<and> rendersWithoutError nodeFunctionDockerfileTemplate name tokens
   \<and> rendersWithoutError shellFunctionDockerfileTemplate name tokens
   \<and> (snd (generateDockerfile language opts) = None) =
       (language \<in> {''java'', ''python'', ''shell'', ''node'', ''js''})"
proof -
  have java: "rendersWithoutError javaFunctionDockerfileTemplate name tokens"
    by (simp add: rendersWithoutError_def parse_java evalField_def)
  have python: "rendersWithoutError pythonFunctionDockerfileTemplate name tokens"
    by (simp add: rendersWithoutError_def parse_python evalField_def)
  have node: "rendersWithoutError nodeFunctionDockerfileTemplate name tokens"
    by (simp add: rendersWithoutError_def parse_node evalField_def)
  have shell: "rendersWithoutError shellFunctionDockerfileTemplate name tokens"
    by (simp add: rendersWithoutError_def parse_shell evalField_def)
  have dispatch: "(snd (generateDockerfile language opts) = None) =
       (language \<in> {''java'', ''python'', ''shell'', ''node'', ''js''})"
    by (simp add: generateDockerfile_def supported_no_error)
  from java python node shell dispatch show ?thesis
    by blast
qed

end
